theory Spec2Isabelle
  imports Main "HOL-Library.Sublist"
begin

section \<open>The session registry of the WhatsApp server\<close>

text \<open>
  The file \<^verbatim>\<open>src/index.ts\<close> comes in two copies. The first one (lines 1 to 360,
  called variant 1 below) guards its engine callbacks and cleans up on failures; the
  second one (lines 360 to 601, variant 2) is the shorter copy. Handlers that are the
  same text in both copies are modelled once; handlers that differ are modelled twice,
  with the suffixes \<open>_v1\<close> and \<open>_v2\<close>.

  Every handler of the source is a callback that runs to completion without an
  \<^verbatim>\<open>await\<close> before its last access to the registry, so a handler is one function from the
  state before to the state after, together with the list of effects it performs, in
  program order.
\<close>

subsection \<open>Strings: \<^verbatim>\<open>includes\<close> and the address suffix\<close>

text \<open>\<^verbatim>\<open>s.includes(pat)\<close>: does \<open>pat\<close> occur in \<open>s\<close> at some position.\<close>

fun includes_str :: "string \<Rightarrow> string \<Rightarrow> bool" where
  "includes_str [] pat = (pat = [])"
| "includes_str (c # cs) pat = (prefix pat (c # cs) \<or> includes_str cs pat)"

text \<open>
  The expression \<^verbatim>\<open>to.includes('@c.us') ? to : `${to}@c.us`\<close>, which the source writes
  out at three places (send-message, chat-history, the inbound message callback).
\<close>

definition formattedNumber :: "string \<Rightarrow> string" where
  "formattedNumber to = (if includes_str to ''@c.us'' then to else to @ ''@c.us'')"

subsection \<open>The JavaScript \<^verbatim>\<open>Map\<close>\<close>

text \<open>
  A \<^verbatim>\<open>Map<string, Client>\<close> is kept as the list of its entries in insertion order, which
  is the order \<^verbatim>\<open>clients.entries()\<close> enumerates. \<^verbatim>\<open>set\<close> replaces the value of a key
  that is present, in place, and appends a new entry otherwise; \<^verbatim>\<open>delete\<close> drops the
  entry of the key.
\<close>

fun map_has :: "('k \<times> 'v) list \<Rightarrow> 'k \<Rightarrow> bool" where
  "map_has [] k = False"
| "map_has ((k', v) # m) k = (k' = k \<or> map_has m k)"

fun map_get :: "('k \<times> 'v) list \<Rightarrow> 'k \<Rightarrow> 'v option" where
  "map_get [] k = None"
| "map_get ((k', v) # m) k = (if k' = k then Some v else map_get m k)"

fun map_set :: "('k \<times> 'v) list \<Rightarrow> 'k \<Rightarrow> 'v \<Rightarrow> ('k \<times> 'v) list" where
  "map_set [] k v = [(k, v)]"
| "map_set ((k', v') # m) k v = (if k' = k then (k, v) # m else (k', v') # map_set m k v)"

fun map_delete :: "('k \<times> 'v) list \<Rightarrow> 'k \<Rightarrow> ('k \<times> 'v) list" where
  "map_delete [] k = []"
| "map_delete ((k', v) # m) k = (if k' = k then map_delete m k else (k', v) # map_delete m k)"

subsection \<open>Client objects, state and effects\<close>

text \<open>
  A \<^verbatim>\<open>Client\<close> is an object of the engine library; the registry and the closures of the
  callbacks hold references to it. A reference is a number, and the one field the
  source reads, \<^verbatim>\<open>info\<close> (declared \<^verbatim>\<open>info?: any\<close>), lives in a store indexed by references.
\<close>

type_synonym handle = nat

type_synonym socket = nat

record client_info =
  wid_user :: "string option"
  status :: "string option"

record state =
  clients :: "(string \<times> handle) list"
  info :: "handle \<Rightarrow> client_info option"
  next_handle :: handle

definition init_state :: state where
  "init_state = \<lparr>clients = [], info = (\<lambda>_. None), next_handle = 0\<rparr>"

text \<open>The interface \<^verbatim>\<open>Message\<close> of the declaration file.\<close>

record message =
  msg_id :: string
  msg_body :: string
  msg_from :: string
  msg_timestamp :: int

text \<open>The object the inbound message callback emits.\<close>

record inbound =
  in_from :: string
  in_body :: string
  in_timestamp :: int
  in_phoneNumber :: string
  in_myNumber :: "string option"

datatype payload = NoPayload | Undefined | Text string | Inbound inbound

text \<open>
  What follows a call of \<^verbatim>\<open>client.destroy()\<close>: either the source chains
  \<^verbatim>\<open>.catch(err => console.error(label, err))\<close>, or it drops the promise.
\<close>

datatype on_reject = Caught string | Dropped

datatype body =
    Success
  | SendOk string
  | Failure string
  | Sessions "(string \<times> string) list"
  | History "message list"

datatype effect =
    Log string
  | LogClients "(string \<times> handle) list"
  | IoEmit string payload
  | SockEmit socket string payload
  | Initialize handle
  | Destroy handle on_reject
  | EngineSend handle string string
  | EngineHistory handle string
  | Respond nat body
  | UnhandledRejection string
  | Uncaught string

text \<open>
  \<^verbatim>\<open>console.log\<close> and \<^verbatim>\<open>console.error\<close> are \<open>Log\<close> with the printed arguments joined by a
  space (an error object is printed as its message); \<^verbatim>\<open>io.emit\<close> reaches every socket,
  \<^verbatim>\<open>socket.emit\<close> one socket; \<open>Respond\<close> is the HTTP status with the JSON body.
\<close>

text \<open>
  How a promise returned by \<^verbatim>\<open>client.destroy()\<close> settles, and what the program does
  then: a rejection that was caught is logged, a rejection of a dropped promise is an
  unhandled rejection of the process.
\<close>

datatype settled = Resolved | Rejected string

fun destroy_settled :: "on_reject \<Rightarrow> settled \<Rightarrow> effect list" where
  "destroy_settled r Resolved = []"
| "destroy_settled (Caught label) (Rejected err) = [Log (label @ '' '' @ err)]"
| "destroy_settled Dropped (Rejected err) = [UnhandledRejection err]"

text \<open>\<^verbatim>\<open>client.info?.wid?.user\<close>\<close>

definition info_wid_user :: "state \<Rightarrow> handle \<Rightarrow> string option" where
  "info_wid_user st h = (case info st h of None \<Rightarrow> None | Some i \<Rightarrow> wid_user i)"

text \<open>\<^verbatim>\<open>existingClient?.info?.status\<close>\<close>

definition info_status :: "state \<Rightarrow> handle \<Rightarrow> string option" where
  "info_status st h = (case info st h of None \<Rightarrow> None | Some i \<Rightarrow> status i)"

definition opt_payload :: "string option \<Rightarrow> payload" where
  "opt_payload x = (case x of None \<Rightarrow> Undefined | Some s \<Rightarrow> Text s)"

definition opt_text :: "string option \<Rightarrow> string" where
  "opt_text x = (case x of None \<Rightarrow> ''undefined'' | Some s \<Rightarrow> s)"

subsection \<open>\<^verbatim>\<open>createWhatsAppClient\<close> and the engine callbacks\<close>

text \<open>
  \<^verbatim>\<open>createWhatsAppClient(clientId)\<close> allocates a new \<^verbatim>\<open>Client\<close>, whose \<^verbatim>\<open>info\<close> is not
  set, and registers the callbacks below on it; each callback closes over \<^verbatim>\<open>clientId\<close>
  and \<^verbatim>\<open>client\<close>, which are its first two arguments here. The directory it creates
  for the credentials is not part of the state. The call can throw (the file system,
  the constructor): that outcome is an input of the handler that calls it.
\<close>

definition createWhatsAppClient :: "state \<Rightarrow> handle \<times> state" where
  "createWhatsAppClient st =
     (next_handle st,
      st\<lparr>info := (info st)(next_handle st := None), next_handle := Suc (next_handle st)\<rparr>)"

definition on_qr :: "string \<Rightarrow> handle \<Rightarrow> string \<Rightarrow> state \<Rightarrow> state \<times> effect list" where
  "on_qr clientId client qr st =
     (st, [Log (''['' @ clientId @ ''] QR Code received''),
           IoEmit (''qr_'' @ clientId) (Text qr)])"

definition on_qr_max_retries_v1 :: "string \<Rightarrow> handle \<Rightarrow> state \<Rightarrow> state \<times> effect list" where
  "on_qr_max_retries_v1 clientId client st =
     (st\<lparr>clients := map_delete (clients st) clientId\<rparr>,
      [Log (''['' @ clientId @ ''] Maximum QR code retries reached''),
       IoEmit (''error_'' @ clientId) (Text ''Maximum QR code retries reached. Session removed.''),
       Destroy client (Caught (''['' @ clientId @ ''] Error destroying client:''))])"

definition on_ready :: "string \<Rightarrow> handle \<Rightarrow> state \<Rightarrow> state \<times> effect list" where
  "on_ready clientId client st =
     (st, [Log (''['' @ clientId @ ''] Client is ready!''),
           IoEmit (''ready_'' @ clientId) (opt_payload (info_wid_user st client))])"

definition on_authenticated :: "string \<Rightarrow> handle \<Rightarrow> state \<Rightarrow> state \<times> effect list" where
  "on_authenticated clientId client st =
     (st, [Log (''['' @ clientId @ ''] Client is authenticated!'')])"

definition on_auth_failure_v1 :: "string \<Rightarrow> handle \<Rightarrow> string \<Rightarrow> state \<Rightarrow> state \<times> effect list" where
  "on_auth_failure_v1 clientId client msg st =
     (st\<lparr>clients := map_delete (clients st) clientId\<rparr>,
      [Log (''['' @ clientId @ ''] Authentication failure: '' @ msg),
       IoEmit (''error_'' @ clientId) (Text ''Authentication failed. Please try again.''),
       Destroy client (Caught (''['' @ clientId @ ''] Error destroying client:''))])"

definition on_auth_failure_v2 :: "string \<Rightarrow> handle \<Rightarrow> string \<Rightarrow> state \<Rightarrow> state \<times> effect list" where
  "on_auth_failure_v2 clientId client msg st =
     (st, [Log (''['' @ clientId @ ''] Authentication failure: '' @ msg),
           IoEmit (''error_'' @ clientId) (Text ''Authentication failed. Please try again.'')])"

definition on_disconnected_v1 :: "string \<Rightarrow> handle \<Rightarrow> string \<Rightarrow> state \<Rightarrow> state \<times> effect list" where
  "on_disconnected_v1 clientId client reason st =
     (if reason = ''LOGOUT'' \<or> reason = ''UNPAIRED''
      then (st\<lparr>clients := map_delete (clients st) clientId\<rparr>,
            [Log (''['' @ clientId @ ''] Client was disconnected: '' @ reason),
             Log (''['' @ clientId @ ''] Session removed due to unlinking''),
             IoEmit (''disconnected_'' @ clientId) (Text reason)])
      else (st,
            [Log (''['' @ clientId @ ''] Client was disconnected: '' @ reason),
             IoEmit (''disconnected_'' @ clientId) (Text reason)]))"

definition on_disconnected_v2 :: "string \<Rightarrow> handle \<Rightarrow> string \<Rightarrow> state \<Rightarrow> state \<times> effect list" where
  "on_disconnected_v2 clientId client reason st =
     (st\<lparr>clients := map_delete (clients st) clientId\<rparr>,
      [Log (''['' @ clientId @ ''] Client was disconnected: '' @ reason),
       LogClients (map_delete (clients st) clientId),
       IoEmit (''disconnected_'' @ clientId) (Text reason)])"

definition on_message :: "string \<Rightarrow> handle \<Rightarrow> message \<Rightarrow> state \<Rightarrow> state \<times> effect list" where
  "on_message clientId client m st =
     (st, [Log (''['' @ clientId @ ''] Message received: '' @ msg_body m),
           IoEmit (''message_'' @ clientId)
             (Inbound \<lparr>in_from = msg_from m, in_body = msg_body m,
                       in_timestamp = msg_timestamp m,
                       in_phoneNumber = formattedNumber (msg_from m),
                       in_myNumber = info_wid_user st client\<rparr>)])"

subsection \<open>The socket handler \<^verbatim>\<open>create_session\<close>\<close>

text \<open>Whether \<^verbatim>\<open>createWhatsAppClient\<close> returns or throws, as the environment decides.\<close>

datatype construct = Constructed | Throws string

text \<open>
  Variant 1, lines 195 to 222. The promise of \<^verbatim>\<open>client.initialize()\<close> is the effect
  \<open>Initialize\<close>; its \<^verbatim>\<open>catch\<close> callback is \<open>on_initialize_rejected_v1\<close> below.
\<close>

definition create_session_v1 :: "socket \<Rightarrow> string \<Rightarrow> construct \<Rightarrow> state \<Rightarrow> state \<times> effect list" where
  "create_session_v1 socket clientId c st =
     (if \<not> map_has (clients st) clientId then
        (case c of
           Constructed \<Rightarrow>
             (let (client, st1) = createWhatsAppClient st
              in (st1\<lparr>clients := map_set (clients st1) clientId client\<rparr>,
                  [Log (''Creating new session for client: '' @ clientId),
                   Initialize client]))
         | Throws err \<Rightarrow>
             (st, [Log (''Creating new session for client: '' @ clientId),
                   Log (''Error creating session for '' @ clientId @ '': '' @ err),
                   SockEmit socket (''error_'' @ clientId)
                     (Text ''Failed to create WhatsApp session'')]))
      else
        (st, [Log (''Creating new session for client: '' @ clientId),
              Log (''Session '' @ clientId @ '' already exists''),
              SockEmit socket (''error_'' @ clientId @ ''_Session already exists'') NoPayload]
             @ (case map_get (clients st) clientId of
                  None \<Rightarrow> []
                | Some existingClient \<Rightarrow>
                    if info st existingClient \<noteq> None
                    then [SockEmit socket (''ready_'' @ clientId) NoPayload] else [])))"

definition on_initialize_rejected_v1 ::
    "socket \<Rightarrow> string \<Rightarrow> handle \<Rightarrow> string \<Rightarrow> state \<Rightarrow> state \<times> effect list" where
  "on_initialize_rejected_v1 socket clientId client err st =
     (st\<lparr>clients := map_delete (clients st) clientId\<rparr>,
      [Log (''['' @ clientId @ ''] Error during initialization: '' @ err),
       SockEmit socket (''error_'' @ clientId) (Text ''Failed to initialize WhatsApp client''),
       Destroy client
         (Caught (''['' @ clientId @ ''] Error destroying client after init failure:''))])"

text \<open>
  Variant 2, lines 500 to 521: no \<^verbatim>\<open>try\<close>, and three branches, of which the second
  repeats the negated test of the first.
\<close>

definition create_session_v2 :: "socket \<Rightarrow> string \<Rightarrow> construct \<Rightarrow> state \<Rightarrow> state \<times> effect list" where
  "create_session_v2 socket clientId c st =
     (if \<not> map_has (clients st) clientId then
        (case c of
           Constructed \<Rightarrow>
             (let (client, st1) = createWhatsAppClient st
              in (st1\<lparr>clients := map_set (clients st1) clientId client\<rparr>,
                  [Log (''Creating new session for client: '' @ clientId),
                   Initialize client]))
         | Throws err \<Rightarrow>
             (st, [Log (''Creating new session for client: '' @ clientId), Uncaught err]))
      else if map_has (clients st) clientId then
        (st, [Log (''Creating new session for client: '' @ clientId),
              Log (''Session '' @ clientId @ '' already exists''),
              Log (opt_text (case map_get (clients st) clientId of
                               None \<Rightarrow> None
                             | Some existingClient \<Rightarrow> info_status st existingClient))])
      else
        (st, [Log (''Creating new session for client: '' @ clientId),
              Log (''Session '' @ clientId @ '' already exists'')]
             @ (case map_get (clients st) clientId of
                  None \<Rightarrow> []
                | Some existingClient \<Rightarrow>
                    if info st existingClient \<noteq> None
                    then [SockEmit socket (''ready_'' @ clientId) NoPayload] else [])))"

definition on_initialize_rejected_v2 ::
    "socket \<Rightarrow> string \<Rightarrow> handle \<Rightarrow> string \<Rightarrow> state \<Rightarrow> state \<times> effect list" where
  "on_initialize_rejected_v2 socket clientId client err st =
     (st, [Log (''['' @ clientId @ ''] Error during initialization: '' @ err),
           SockEmit socket (''error_'' @ clientId)
             (Text ''Failed to initialize WhatsApp client'')])"

subsection \<open>The HTTP endpoints\<close>

text \<open>
  \<^verbatim>\<open>POST /api/send-message\<close>, the same text in both variants. The fields of the request
  body are strings, and a missing field is the empty string (both are falsy). The
  handler suspends once, at \<^verbatim>\<open>await client.sendMessage\<close>, and does not read the registry
  afterwards; how that promise settles is the argument \<open>outcome\<close>.
\<close>

datatype send_outcome = Sent message | SendError string | SendRejected string

definition send_message ::
    "state \<Rightarrow> string \<Rightarrow> string \<Rightarrow> string \<Rightarrow> send_outcome \<Rightarrow> effect list" where
  "send_message st clientId to message outcome =
     (if clientId = [] \<or> to = [] \<or> message = [] then
        [Respond 400 (Failure ''Client ID, recipient number, and message are required'')]
      else case map_get (clients st) clientId of
        None \<Rightarrow> [Respond 404 (Failure ''WhatsApp client not found'')]
      | Some client \<Rightarrow>
          if info st client = None then
            [Respond 400 (Failure ''WhatsApp client is not initialized yet'')]
          else
            EngineSend client (formattedNumber to) message #
            (case outcome of
               Sent response \<Rightarrow> [Respond 200 (SendOk (msg_id response))]
             | SendError err \<Rightarrow>
                 [Log (''Error sending message: '' @ err), Respond 500 (Failure err)]
             | SendRejected x \<Rightarrow>
                 [Log (''Error sending message: '' @ x),
                  Respond 500 (Failure ''Failed to send message'')]))"

text \<open>\<^verbatim>\<open>GET /api/sessions\<close>, the same text in both variants.\<close>

definition get_sessions :: "state \<Rightarrow> effect list" where
  "get_sessions st =
     [Respond 200 (Sessions (map (\<lambda>(clientId, client).
        (clientId, if info st client \<noteq> None then ''connected'' else ''disconnected''))
        (clients st)))]"

text \<open>\<^verbatim>\<open>DELETE /api/session/:clientId\<close>, the same text in both variants.\<close>

definition delete_session :: "string \<Rightarrow> state \<Rightarrow> state \<times> effect list" where
  "delete_session clientId st =
     (case map_get (clients st) clientId of
        Some client \<Rightarrow>
          (st\<lparr>clients := map_delete (clients st) clientId\<rparr>,
           [Destroy client Dropped, Respond 200 Success])
      | None \<Rightarrow> (st, [Respond 404 (Failure ''Session not found'')]))"

text \<open>\<^verbatim>\<open>POST /api/chat-history\<close>, variant 1 only.\<close>

datatype history_outcome = Fetched "message list" | HistoryError string | HistoryRejected string

definition chat_history :: "state \<Rightarrow> string \<Rightarrow> string \<Rightarrow> history_outcome \<Rightarrow> effect list" where
  "chat_history st clientId number outcome =
     (if clientId = [] \<or> number = [] then
        [Respond 400 (Failure ''Client ID and phone number are required'')]
      else case map_get (clients st) clientId of
        None \<Rightarrow> [Respond 404 (Failure ''WhatsApp client not found'')]
      | Some client \<Rightarrow>
          if info st client = None then
            [Respond 400 (Failure ''WhatsApp client is not initialized yet'')]
          else
            EngineHistory client (formattedNumber number) #
            (case outcome of
               Fetched messages \<Rightarrow>
                 [Respond 200 (History (map (\<lambda>msg.
                    \<lparr>msg_id = msg_id msg, msg_body = msg_body msg,
                     msg_from = msg_from msg, msg_timestamp = msg_timestamp msg\<rparr>) messages))]
             | HistoryError err \<Rightarrow>
                 [Log (''Error fetching chat history: '' @ err), Respond 500 (Failure err)]
             | HistoryRejected x \<Rightarrow>
                 [Log (''Error fetching chat history: '' @ x),
                  Respond 500 (Failure ''Failed to fetch chat history'')]))"

subsection \<open>The server as a transition system\<close>

text \<open>
  Modelled from the spec: the engine library (\<^verbatim>\<open>whatsapp-web.js\<close>) is not among the
  sources, only its declaration file is. The \<^verbatim>\<open>ready\<close> transition of the spec publishes
  the account identity, which the callback reads from \<^verbatim>\<open>client.info\<close>, and the source
  reads a set \<^verbatim>\<open>client.info\<close> as "the session is ready": the engine sets \<^verbatim>\<open>client.info\<close>
  and then calls the \<^verbatim>\<open>ready\<close> callback. The value it sets is part of the event.
\<close>

definition engine_sets_info :: "handle \<Rightarrow> client_info \<Rightarrow> state \<Rightarrow> state" where
  "engine_sets_info client i st = st\<lparr>info := (info st)(client := Some i)\<rparr>"

datatype variant = V1 | V2

datatype event =
    CreateSession socket string construct
  | InitializeRejected socket string handle string
  | Qr string handle string
  | QrMaxRetries string handle
  | Ready string handle client_info
  | Authenticated string handle
  | AuthFailure string handle string
  | Disconnected string handle string
  | InboundMessage string handle message
  | DeleteSession string

fun create_session :: "variant \<Rightarrow> socket \<Rightarrow> string \<Rightarrow> construct \<Rightarrow> state \<Rightarrow> state \<times> effect list" where
  "create_session V1 = create_session_v1"
| "create_session V2 = create_session_v2"

fun on_initialize_rejected ::
    "variant \<Rightarrow> socket \<Rightarrow> string \<Rightarrow> handle \<Rightarrow> string \<Rightarrow> state \<Rightarrow> state \<times> effect list" where
  "on_initialize_rejected V1 = on_initialize_rejected_v1"
| "on_initialize_rejected V2 = on_initialize_rejected_v2"

fun on_auth_failure :: "variant \<Rightarrow> string \<Rightarrow> handle \<Rightarrow> string \<Rightarrow> state \<Rightarrow> state \<times> effect list" where
  "on_auth_failure V1 = on_auth_failure_v1"
| "on_auth_failure V2 = on_auth_failure_v2"

fun on_disconnected :: "variant \<Rightarrow> string \<Rightarrow> handle \<Rightarrow> string \<Rightarrow> state \<Rightarrow> state \<times> effect list" where
  "on_disconnected V1 = on_disconnected_v1"
| "on_disconnected V2 = on_disconnected_v2"

text \<open>Variant 2 registers no callback for \<^verbatim>\<open>qr_max_retries\<close>.\<close>

fun on_qr_max_retries :: "variant \<Rightarrow> string \<Rightarrow> handle \<Rightarrow> state \<Rightarrow> state \<times> effect list" where
  "on_qr_max_retries V1 clientId client st = on_qr_max_retries_v1 clientId client st"
| "on_qr_max_retries V2 clientId client st = (st, [])"

fun step :: "variant \<Rightarrow> event \<Rightarrow> state \<Rightarrow> state \<times> effect list" where
  "step v (CreateSession socket clientId c) st = create_session v socket clientId c st"
| "step v (InitializeRejected socket clientId client err) st =
     on_initialize_rejected v socket clientId client err st"
| "step v (Qr clientId client qr) st = on_qr clientId client qr st"
| "step v (QrMaxRetries clientId client) st = on_qr_max_retries v clientId client st"
| "step v (Ready clientId client i) st = on_ready clientId client (engine_sets_info client i st)"
| "step v (Authenticated clientId client) st = on_authenticated clientId client st"
| "step v (AuthFailure clientId client msg) st = on_auth_failure v clientId client msg st"
| "step v (Disconnected clientId client reason) st = on_disconnected v clientId client reason st"
| "step v (InboundMessage clientId client m) st = on_message clientId client m st"
| "step v (DeleteSession clientId) st = delete_session clientId st"

fun run :: "variant \<Rightarrow> event list \<Rightarrow> state \<Rightarrow> state" where
  "run v [] st = st"
| "run v (ev # evs) st = run v evs (fst (step v ev st))"

inductive reachable :: "variant \<Rightarrow> state \<Rightarrow> bool" for v :: variant where
  reachable_init: "reachable v init_state"
| reachable_step: "reachable v st \<Longrightarrow> reachable v (fst (step v ev st))"

section \<open>Auxiliary facts\<close>

lemma includes_str_iff: "includes_str s pat = (\<exists>p q. s = p @ pat @ q)"
proof (induction s)
  case Nil
  then show ?case by auto
next
  case (Cons c cs)
  show ?case
  proof
    assume "includes_str (c # cs) pat"
    then consider "prefix pat (c # cs)" | "includes_str cs pat" by auto
    then show "\<exists>p q. c # cs = p @ pat @ q"
    proof cases
      case 1
      then obtain q where "c # cs = pat @ q" by (auto simp: prefix_def)
      then have "c # cs = [] @ pat @ q" by simp
      then show ?thesis by blast
    next
      case 2
      with Cons.IH obtain p q where "cs = p @ pat @ q" by blast
      then have "c # cs = (c # p) @ pat @ q" by simp
      then show ?thesis by blast
    qed
  next
    assume "\<exists>p q. c # cs = p @ pat @ q"
    then obtain p q where pq: "c # cs = p @ pat @ q" by blast
    show "includes_str (c # cs) pat"
    proof (cases p)
      case Nil
      with pq have "prefix pat (c # cs)" by (simp add: prefix_def)
      then show ?thesis by simp
    next
      case (Cons a p')
      with pq have "cs = p' @ pat @ q" by simp
      with Cons.IH have "includes_str cs pat" by blast
      then show ?thesis by simp
    qed
  qed
qed

lemma includes_str_append_pat: "includes_str (a @ pat) pat"
  unfolding includes_str_iff by (rule exI [of _ a], rule exI [of _ "[]"]) simp

lemma formattedNumber_idem: "formattedNumber (formattedNumber a) = formattedNumber a"
  by (simp add: formattedNumber_def includes_str_append_pat)

lemma map_has_get: "map_has m k = (map_get m k \<noteq> None)"
  by (induction m) auto

lemma map_has_keys: "map_has m k = (k \<in> set (map fst m))"
  by (induction m) auto

lemma map_get_delete: "map_get (map_delete m k) k' = (if k' = k then None else map_get m k')"
  by (induction m) auto

lemma map_get_set: "map_get (map_set m k v) k' = (if k' = k then Some v else map_get m k')"
  by (induction m) auto

lemma keys_map_delete: "map fst (map_delete m k) = filter (\<lambda>k'. k' \<noteq> k) (map fst m)"
  by (induction m) auto

lemma keys_map_set: "\<not> map_has m k \<Longrightarrow> map fst (map_set m k v) = map fst m @ [k]"
  by (induction m) auto

lemma distinct_map_delete: "distinct (map fst m) \<Longrightarrow> distinct (map fst (map_delete m k))"
  by (simp add: keys_map_delete)

lemma distinct_map_set: "distinct (map fst m) \<Longrightarrow> \<not> map_has m k \<Longrightarrow> distinct (map fst (map_set m k v))"
  by (simp add: keys_map_set map_has_keys)

lemmas handler_defs =
  init_state_def createWhatsAppClient_def engine_sets_info_def
  create_session_v1_def create_session_v2_def
  on_initialize_rejected_v1_def on_initialize_rejected_v2_def
  on_qr_def on_qr_max_retries_v1_def on_ready_def on_authenticated_def
  on_auth_failure_v1_def on_auth_failure_v2_def
  on_disconnected_v1_def on_disconnected_v2_def on_message_def delete_session_def
  info_wid_user_def info_status_def opt_payload_def opt_text_def

lemma step_distinct:
  "distinct (map fst (clients st)) \<Longrightarrow> distinct (map fst (clients (fst (step v ev st))))"
  by (cases ev; cases v)
     (auto simp: create_session_v1_def create_session_v2_def createWhatsAppClient_def
        on_initialize_rejected_v1_def on_initialize_rejected_v2_def on_qr_def
        on_qr_max_retries_v1_def on_ready_def engine_sets_info_def on_authenticated_def
        on_auth_failure_v1_def on_auth_failure_v2_def on_disconnected_v1_def
        on_disconnected_v2_def on_message_def delete_session_def
        distinct_map_delete distinct_map_set
        split: construct.splits option.splits)

lemma reachable_distinct: "reachable v st \<Longrightarrow> distinct (map fst (clients st))"
  by (induction rule: reachable.induct) (simp_all add: init_state_def step_distinct)

lemma reachable_run: "reachable v st \<Longrightarrow> reachable v (run v evs st)"
  by (induction evs arbitrary: st) (auto intro: reachable_step)

lemma distinct_at_most_one:
  "distinct (map fst m) \<Longrightarrow> length (filter (\<lambda>e. fst e = k) m) \<le> 1"
  by (induction m) (force simp: filter_empty_conv)+

section \<open>The claims\<close>

subsection \<open>Address normalisation\<close>

text \<open>
  Claim C10. The normalisation appends \<^verbatim>\<open>@c.us\<close> exactly when the input does not
  contain \<^verbatim>\<open>@c.us\<close> anywhere: an input that contains it at any position, also not at
  the end, is passed through unchanged, and normalising twice is normalising once.
  The address that send-message and chat-history hand to the engine, and the
  \<^verbatim>\<open>phoneNumber\<close> that the inbound message callback emits, are this normalisation of the
  address they were given.
\<close>

theorem formattedNumber_containment:
  "(formattedNumber a = a @ ''@c.us'') = (\<not> (\<exists>p q. a = p @ ''@c.us'' @ q))
   \<and> formattedNumber (p @ ''@c.us'' @ q) = p @ ''@c.us'' @ q
   \<and> formattedNumber (formattedNumber a) = formattedNumber a
   \<and> (clientId \<noteq> [] \<and> a \<noteq> [] \<and> message \<noteq> [] \<and> map_get (clients st) clientId = Some client
        \<and> info st client \<noteq> None \<longrightarrow>
        hd (send_message st clientId a message out) = EngineSend client (formattedNumber a) message
        \<and> hd (chat_history st clientId a hout) = EngineHistory client (formattedNumber a))
   \<and> (\<exists>x. snd (on_message clientId client m st)
             = [Log (''['' @ clientId @ ''] Message received: '' @ msg_body m),
                IoEmit (''message_'' @ clientId) (Inbound x)]
           \<and> in_phoneNumber x = formattedNumber (msg_from m))"
proof -
  have inc: "includes_str (p @ ''@c.us'' @ q) ''@c.us''"
    unfolding includes_str_iff by blast
  have 1: "(formattedNumber a = a @ ''@c.us'') = (\<not> (\<exists>p q. a = p @ ''@c.us'' @ q))"
    by (simp add: formattedNumber_def includes_str_iff)
  have 2: "formattedNumber (p @ ''@c.us'' @ q) = p @ ''@c.us'' @ q"
    using inc by (simp add: formattedNumber_def)
  have 3: "formattedNumber (formattedNumber a) = formattedNumber a"
    by (rule formattedNumber_idem)
  have 4: "clientId \<noteq> [] \<and> a \<noteq> [] \<and> message \<noteq> [] \<and> map_get (clients st) clientId = Some client
        \<and> info st client \<noteq> None \<longrightarrow>
        hd (send_message st clientId a message out) = EngineSend client (formattedNumber a) message
        \<and> hd (chat_history st clientId a hout) = EngineHistory client (formattedNumber a)"
    by (auto simp: send_message_def chat_history_def)
  have 5: "\<exists>x. snd (on_message clientId client m st)
             = [Log (''['' @ clientId @ ''] Message received: '' @ msg_body m),
                IoEmit (''message_'' @ clientId) (Inbound x)]
           \<and> in_phoneNumber x = formattedNumber (msg_from m)"
    by (simp add: on_message_def)
  from 1 2 3 4 5 show ?thesis by blast
qed

theorem formattedNumber_containment_witness:
  "formattedNumber ''1555@c.us.example'' = ''1555@c.us.example''
   \<and> formattedNumber ''1555'' = ''1555@c.us''
   \<and> hd (send_message
            (run V1 [CreateSession 0 ''B'' Constructed,
                     Ready ''B'' 0 \<lparr>wid_user = Some ''4915'', status = None\<rparr>] init_state)
            ''B'' ''1555@c.us.example'' ''hi'' (SendError ''no''))
       = EngineSend 0 ''1555@c.us.example'' ''hi''"
proof -
  let ?st = "run V1 [CreateSession 0 ''B'' Constructed,
                     Ready ''B'' 0 \<lparr>wid_user = Some ''4915'', status = None\<rparr>] init_state"
  have st: "map_get (clients ?st) ''B'' = Some 0 \<and> info ?st 0 \<noteq> None"
    by (simp add: handler_defs)
  have a: "''1555@c.us.example'' = ''1555'' @ ''@c.us'' @ ''.example''" by simp
  have b: "\<not> (\<exists>p q. ''1555'' = p @ ''@c.us'' @ q)"
  proof
    assume "\<exists>p q. ''1555'' = p @ ''@c.us'' @ q"
    then obtain p q where "''1555'' = p @ ''@c.us'' @ q" by blast
    then have "length ''1555'' = length (p @ ''@c.us'' @ q)" by simp
    then show False by simp
  qed
  from formattedNumber_containment
         [of "''1555''" "''1555''" "''.example''" "''B''" "''hi''" ?st 0 "SendError ''no''"]
  have n1: "formattedNumber ''1555'' = ''1555@c.us''"
    and n2: "formattedNumber (''1555'' @ ''@c.us'' @ ''.example'') = ''1555'' @ ''@c.us'' @ ''.example''"
    using b by simp_all
  from formattedNumber_containment
         [of "''1555@c.us.example''" "''1555''" "''.example''" "''B''" "''hi''" ?st 0 "SendError ''no''"]
  have n3: "hd (send_message ?st ''B'' ''1555@c.us.example'' ''hi'' (SendError ''no''))
       = EngineSend 0 (formattedNumber ''1555@c.us.example'') ''hi''"
    using st by simp
  from n1 n2 n3 show ?thesis by simp
qed

subsection \<open>Creating a session\<close>

lemma create_session_present:
  "map_has (clients st) x \<Longrightarrow>
     fst (create_session v s x c st) = st
     \<and> Log (''Session '' @ x @ '' already exists'') \<in> set (snd (create_session v s x c st))"
  by (cases v) (simp_all add: create_session_v1_def create_session_v2_def)

lemma create_session_registers:
  "map_has (clients (fst (create_session v s x Constructed st))) x"
  by (cases v)
     (auto simp: create_session_v1_def create_session_v2_def createWhatsAppClient_def
        map_has_get map_get_set)

lemma create_session_v1_signals:
  "map_has (clients st) x \<Longrightarrow>
     take 3 (snd (create_session_v1 s x c st))
       = [Log (''Creating new session for client: '' @ x),
          Log (''Session '' @ x @ '' already exists''),
          SockEmit s (''error_'' @ x @ ''_Session already exists'') NoPayload]"
  by (simp add: create_session_v1_def)

text \<open>
  Claim C1, as stated, fails in variant 2. Of two creation requests for "A" in
  immediate succession, the second one leaves the state as it is, but its requester
  observes nothing: the handler writes three lines to the server log and emits no
  event, to the requesting socket or to any other.
\<close>

theorem create_session_second_counterexample:
  "step V2 (CreateSession 1 ''A'' Constructed)
     (run V2 [CreateSession 0 ''A'' Constructed] init_state)
   = (run V2 [CreateSession 0 ''A'' Constructed] init_state,
      [Log ''Creating new session for client: A'',
       Log ''Session A already exists'',
       Log ''undefined''])"
  by (simp add: handler_defs)

text \<open>
  Claim C1, amended. In every reachable state of either variant the registry holds at
  most one entry for a session identifier. The handler of \<^verbatim>\<open>create_session\<close> tests and
  inserts in one step: when the identifier is registered, it leaves the registry as
  it is and logs that the session already exists. So after one creation request for
  an identifier, the identifier is registered, and a second request for it takes the
  branch "already exists" and does not replace the entry of the first. In variant 1
  the second requester observes this: the handler logs the request and the existing
  session and then emits the event \<^verbatim>\<open>error_<id>_Session already exists\<close> to the
  requesting socket. In variant 2 the branch is recorded in the server log.
\<close>

theorem create_session_no_duplicate:
  "(reachable v st \<longrightarrow> length (filter (\<lambda>e. fst e = x) (clients st)) \<le> 1)
   \<and> (map_has (clients st) x \<longrightarrow>
        clients (fst (create_session v s x c st)) = clients st
        \<and> Log (''Session '' @ x @ '' already exists'') \<in> set (snd (create_session v s x c st))
        \<and> take 3 (snd (create_session_v1 s x c st))
            = [Log (''Creating new session for client: '' @ x),
               Log (''Session '' @ x @ '' already exists''),
               SockEmit s (''error_'' @ x @ ''_Session already exists'') NoPayload])
   \<and> map_get (clients (fst (create_session v s1 x Constructed st))) x \<noteq> None
   \<and> clients (fst (create_session v s2 x c (fst (create_session v s1 x Constructed st))))
       = clients (fst (create_session v s1 x Constructed st))
   \<and> Log (''Session '' @ x @ '' already exists'')
       \<in> set (snd (create_session v s2 x c (fst (create_session v s1 x Constructed st))))
   \<and> take 3 (snd (create_session_v1 s2 x c (fst (create_session_v1 s1 x Constructed st))))
       = [Log (''Creating new session for client: '' @ x),
          Log (''Session '' @ x @ '' already exists''),
          SockEmit s2 (''error_'' @ x @ ''_Session already exists'') NoPayload]"
proof -
  let ?st1 = "fst (create_session v s1 x Constructed st)"
  let ?st1' = "fst (create_session_v1 s1 x Constructed st)"
  have a: "reachable v st \<longrightarrow> length (filter (\<lambda>e. fst e = x) (clients st)) \<le> 1"
    using distinct_at_most_one [OF reachable_distinct, of v st x] by blast
  have b: "map_has (clients st) x \<longrightarrow>
        clients (fst (create_session v s x c st)) = clients st
        \<and> Log (''Session '' @ x @ '' already exists'') \<in> set (snd (create_session v s x c st))
        \<and> take 3 (snd (create_session_v1 s x c st))
            = [Log (''Creating new session for client: '' @ x),
               Log (''Session '' @ x @ '' already exists''),
               SockEmit s (''error_'' @ x @ ''_Session already exists'') NoPayload]"
    using create_session_present [of st x v s c] create_session_v1_signals [of st x s c]
    by simp
  have r: "map_has (clients ?st1) x" by (rule create_session_registers)
  then have c: "map_get (clients ?st1) x \<noteq> None" by (simp add: map_has_get)
  from create_session_present [OF r, of v s2 c]
  have d: "clients (fst (create_session v s2 x c ?st1)) = clients ?st1
     \<and> Log (''Session '' @ x @ '' already exists'') \<in> set (snd (create_session v s2 x c ?st1))"
    by simp
  have "map_has (clients ?st1') x"
    using create_session_registers [of V1 s1 x st] by simp
  then have e: "take 3 (snd (create_session_v1 s2 x c ?st1'))
       = [Log (''Creating new session for client: '' @ x),
          Log (''Session '' @ x @ '' already exists''),
          SockEmit s2 (''error_'' @ x @ ''_Session already exists'') NoPayload]"
    by (rule create_session_v1_signals)
  from a b c d e show ?thesis by (simp only: simp_thms)
qed

theorem create_session_no_duplicate_witness:
  "reachable V1 (run V1 [CreateSession 0 ''A'' Constructed] init_state)
   \<and> map_has (clients (run V1 [CreateSession 0 ''A'' Constructed] init_state)) ''A''
   \<and> length (filter (\<lambda>e. fst e = ''A'')
        (clients (run V1 [CreateSession 0 ''A'' Constructed, CreateSession 1 ''A'' Constructed]
           init_state))) = 1
   \<and> clients (run V1 [CreateSession 0 ''A'' Constructed, CreateSession 1 ''A'' Constructed]
        init_state) = [(''A'', 0)]
   \<and> snd (step V1 (CreateSession 1 ''A'' Constructed)
        (run V1 [CreateSession 0 ''A'' Constructed] init_state))
       = [Log ''Creating new session for client: A'',
          Log ''Session A already exists'',
          SockEmit 1 ''error_A_Session already exists'' NoPayload]"
proof -
  let ?st = "run V1 [CreateSession 0 ''A'' Constructed] init_state"
  have r: "reachable V1 ?st" by (rule reachable_run [OF reachable_init])
  have h: "map_has (clients ?st) ''A''" by (simp add: handler_defs)
  have e: "clients ?st = [(''A'', 0)]" by (simp add: handler_defs)
  have s: "run V1 [CreateSession 0 ''A'' Constructed, CreateSession 1 ''A'' Constructed] init_state
           = fst (create_session V1 1 ''A'' Constructed ?st)" by simp
  have l: "length (snd (create_session_v1 1 ''A'' Constructed ?st)) = 3"
    by (simp add: handler_defs)
  from create_session_no_duplicate [of V1 ?st "''A''" 1 Constructed 0 1] r h
  have k: "clients (fst (create_session V1 1 ''A'' Constructed ?st)) = clients ?st"
    and t: "take 3 (snd (create_session_v1 1 ''A'' Constructed ?st))
       = [Log (''Creating new session for client: '' @ ''A''),
          Log (''Session '' @ ''A'' @ '' already exists''),
          SockEmit 1 (''error_'' @ ''A'' @ ''_Session already exists'') NoPayload]"
    by blast+
  from l t have "snd (create_session_v1 1 ''A'' Constructed ?st)
       = [Log ''Creating new session for client: A'',
          Log ''Session A already exists'',
          SockEmit 1 ''error_A_Session already exists'' NoPayload]"
    by simp
  with r h e s k show ?thesis by simp
qed

subsection \<open>Sending a message\<close>

text \<open>
  Claim C4, as stated, fails where a required field is empty: with an unknown session
  and an empty recipient the answer is the 400 of the field check, not the 404 of an
  unknown session.
\<close>

theorem send_message_unknown_counterexample:
  "map_get (clients init_state) ''A'' = None
   \<and> send_message init_state ''A'' '''' ''hi'' (SendError ''x'')
       = [Respond 400 (Failure ''Client ID, recipient number, and message are required'')]
   \<and> send_message init_state ''A'' '''' ''hi'' (SendError ''x'')
       \<noteq> [Respond 404 (Failure ''WhatsApp client not found'')]"
  by (simp add: init_state_def send_message_def)

text \<open>
  Claim C4, amended. A send-message request with an empty (or missing) session
  identifier, recipient or body is refused with status 400 before the registry is
  read. For a request whose three fields are not empty: an unknown session identifier
  gives 404 "WhatsApp client not found"; a registered session whose \<^verbatim>\<open>info\<close> is not set
  gives 400 "WhatsApp client is not initialized yet"; otherwise the engine is called
  with the normalised address, and a rejection with an error gives 500 with the
  error's message, a rejection with another value gives 500 "Failed to send message",
  and a sent message gives 200 with its identifier.
\<close>

theorem send_message_outcomes:
  "(sessionId = [] \<or> recipient = [] \<or> body = [] \<longrightarrow>
      send_message st sessionId recipient body out
        = [Respond 400 (Failure ''Client ID, recipient number, and message are required'')])
   \<and> (sessionId \<noteq> [] \<and> recipient \<noteq> [] \<and> body \<noteq> [] \<longrightarrow>
        (map_get (clients st) sessionId = None \<longrightarrow>
           send_message st sessionId recipient body out
             = [Respond 404 (Failure ''WhatsApp client not found'')])
        \<and> (map_get (clients st) sessionId = Some client \<and> info st client = None \<longrightarrow>
           send_message st sessionId recipient body out
             = [Respond 400 (Failure ''WhatsApp client is not initialized yet'')])
        \<and> (map_get (clients st) sessionId = Some client \<and> info st client \<noteq> None \<longrightarrow>
           send_message st sessionId recipient body (SendError reason)
             = [EngineSend client (formattedNumber recipient) body,
                Log (''Error sending message: '' @ reason),
                Respond 500 (Failure reason)]
           \<and> send_message st sessionId recipient body (SendRejected x)
             = [EngineSend client (formattedNumber recipient) body,
                Log (''Error sending message: '' @ x),
                Respond 500 (Failure ''Failed to send message'')]
           \<and> send_message st sessionId recipient body (Sent m)
             = [EngineSend client (formattedNumber recipient) body,
                Respond 200 (SendOk (msg_id m))]))"
  by (auto simp: send_message_def)

theorem send_message_outcomes_witness:
  "send_message init_state ''A'' ''1555@c.us'' [] (SendError ''x'')
     = [Respond 400 (Failure ''Client ID, recipient number, and message are required'')]
   \<and> map_get (clients init_state) ''A'' = None
   \<and> send_message init_state ''A'' ''1555@c.us'' ''hi'' (SendError ''x'')
       = [Respond 404 (Failure ''WhatsApp client not found'')]
   \<and> map_get (clients (run V1 [CreateSession 0 ''B'' Constructed] init_state)) ''B'' = Some 0
   \<and> info (run V1 [CreateSession 0 ''B'' Constructed] init_state) 0 = None
   \<and> send_message (run V1 [CreateSession 0 ''B'' Constructed] init_state)
        ''B'' ''1555@c.us'' ''hi'' (SendError ''x'')
       = [Respond 400 (Failure ''WhatsApp client is not initialized yet'')]
   \<and> send_message
        (run V1 [CreateSession 0 ''B'' Constructed,
                 Ready ''B'' 0 \<lparr>wid_user = Some ''4915'', status = None\<rparr>] init_state)
        ''B'' ''1555'' ''hi'' (SendError ''invalid wid'')
       = [EngineSend 0 ''1555@c.us'' ''hi'',
          Log ''Error sending message: invalid wid'',
          Respond 500 (Failure ''invalid wid'')]
   \<and> send_message
        (run V1 [CreateSession 0 ''B'' Constructed,
                 Ready ''B'' 0 \<lparr>wid_user = Some ''4915'', status = None\<rparr>] init_state)
        ''B'' ''1555'' ''hi''
        (Sent \<lparr>msg_id = ''m1'', msg_body = ''hi'', msg_from = ''4915@c.us'', msg_timestamp = 7\<rparr>)
       = [EngineSend 0 ''1555@c.us'' ''hi'', Respond 200 (SendOk ''m1'')]"
proof -
  let ?st = "run V1 [CreateSession 0 ''B'' Constructed] init_state"
  let ?rd = "run V1 [CreateSession 0 ''B'' Constructed,
                     Ready ''B'' 0 \<lparr>wid_user = Some ''4915'', status = None\<rparr>] init_state"
  let ?m = "\<lparr>msg_id = ''m1'', msg_body = ''hi'', msg_from = ''4915@c.us'', msg_timestamp = 7\<rparr>"
  have n: "map_get (clients init_state) ''A'' = None" by (simp add: init_state_def)
  have h: "map_get (clients ?st) ''B'' = Some 0 \<and> info ?st 0 = None"
    by (simp add: handler_defs)
  have r: "map_get (clients ?rd) ''B'' = Some 0 \<and> info ?rd 0 \<noteq> None"
    by (simp add: handler_defs)
  have f: "formattedNumber ''1555'' = ''1555@c.us''" by (simp add: formattedNumber_def)
  have 1: "send_message init_state ''A'' ''1555@c.us'' [] (SendError ''x'')
     = [Respond 400 (Failure ''Client ID, recipient number, and message are required'')]"
    using send_message_outcomes [of "''A''" "''1555@c.us''" "[]" init_state "SendError ''x''"]
    by simp
  have 2: "send_message init_state ''A'' ''1555@c.us'' ''hi'' (SendError ''x'')
       = [Respond 404 (Failure ''WhatsApp client not found'')]"
    using send_message_outcomes [of "''A''" "''1555@c.us''" "''hi''" init_state "SendError ''x''"] n
    by simp
  have 3: "send_message ?st ''B'' ''1555@c.us'' ''hi'' (SendError ''x'')
       = [Respond 400 (Failure ''WhatsApp client is not initialized yet'')]"
    using send_message_outcomes [of "''B''" "''1555@c.us''" "''hi''" ?st "SendError ''x''" 0] h
    by simp
  have 4: "send_message ?rd ''B'' ''1555'' ''hi'' (SendError ''invalid wid'')
       = [EngineSend 0 ''1555@c.us'' ''hi'',
          Log ''Error sending message: invalid wid'',
          Respond 500 (Failure ''invalid wid'')]
     \<and> send_message ?rd ''B'' ''1555'' ''hi'' (Sent ?m)
       = [EngineSend 0 ''1555@c.us'' ''hi'', Respond 200 (SendOk ''m1'')]"
    using send_message_outcomes
            [of "''B''" "''1555''" "''hi''" ?rd "SendError ''x''" 0 "''invalid wid''" "''x''" ?m] r f
    by simp
  from 1 2 3 4 n h show ?thesis by (simp only: simp_thms)
qed

text \<open>
  Claim C9, as stated, fails twice on a session that is ready. An address that
  contains \<^verbatim>\<open>@c.us\<close> before its end lacks the suffix, yet it reaches the engine
  unchanged, while the same address with the suffix appended reaches the engine with
  the suffix. And the empty address lacks the suffix, yet it is refused by the check
  of the required fields, while \<^verbatim>\<open>@c.us\<close> alone goes to the engine.
\<close>

theorem send_message_suffix_counterexample:
  "send_message
     (run V1 [CreateSession 0 ''B'' Constructed,
              Ready ''B'' 0 \<lparr>wid_user = Some ''4915'', status = None\<rparr>] init_state)
     ''B'' ''1555@c.us.example'' ''hi'' (SendError ''invalid wid'')
   \<noteq> send_message
     (run V1 [CreateSession 0 ''B'' Constructed,
              Ready ''B'' 0 \<lparr>wid_user = Some ''4915'', status = None\<rparr>] init_state)
     ''B'' (''1555@c.us.example'' @ ''@c.us'') ''hi'' (SendError ''invalid wid'')
   \<and> send_message
     (run V1 [CreateSession 0 ''B'' Constructed,
              Ready ''B'' 0 \<lparr>wid_user = Some ''4915'', status = None\<rparr>] init_state)
     ''B'' '''' ''hi'' (SendError ''invalid wid'')
   \<noteq> send_message
     (run V1 [CreateSession 0 ''B'' Constructed,
              Ready ''B'' 0 \<lparr>wid_user = Some ''4915'', status = None\<rparr>] init_state)
     ''B'' ('''' @ ''@c.us'') ''hi'' (SendError ''invalid wid'')"
  by (simp add: handler_defs send_message_def formattedNumber_def)

text \<open>
  Claim C9, amended. For a recipient address that is not empty and does not contain
  \<^verbatim>\<open>@c.us\<close> anywhere, send-message does the same with the address and with the address
  followed by \<^verbatim>\<open>@c.us\<close>: the same call of the engine and the same response. The same
  holds for chat-history.
\<close>

theorem send_message_normalisation_transparent:
  assumes "a \<noteq> []" and "\<not> (\<exists>p q. a = p @ ''@c.us'' @ q)"
  shows "send_message st sessionId a body out = send_message st sessionId (a @ ''@c.us'') body out
         \<and> chat_history st sessionId a hout = chat_history st sessionId (a @ ''@c.us'') hout"
proof -
  from assms(2) have f1: "formattedNumber a = a @ ''@c.us''"
    by (simp add: formattedNumber_def includes_str_iff)
  have f2: "formattedNumber (a @ ''@c.us'') = a @ ''@c.us''"
    by (simp add: formattedNumber_def includes_str_append_pat)
  have "send_message st sessionId a body out = send_message st sessionId (a @ ''@c.us'') body out"
    using assms(1) by (simp add: send_message_def f1 f2 split: option.splits)
  moreover
  have "chat_history st sessionId a hout = chat_history st sessionId (a @ ''@c.us'') hout"
    using assms(1) by (simp add: chat_history_def f1 f2 split: option.splits)
  ultimately show ?thesis by simp
qed

lemma no_suffix_in_1555: "\<not> (\<exists>p q. ''1555'' = p @ ''@c.us'' @ q)"
proof
  assume "\<exists>p q. ''1555'' = p @ ''@c.us'' @ q"
  then obtain p q where "''1555'' = p @ ''@c.us'' @ q" by blast
  then have "length ''1555'' = length (p @ ''@c.us'' @ q)" by simp
  then show False by simp
qed

theorem send_message_normalisation_transparent_witness:
  "send_message
     (run V1 [CreateSession 0 ''B'' Constructed,
              Ready ''B'' 0 \<lparr>wid_user = Some ''4915'', status = None\<rparr>] init_state)
     ''B'' ''1555'' ''hi'' (Sent \<lparr>msg_id = ''m1'', msg_body = ''hi'', msg_from = ''4915@c.us'', msg_timestamp = 7\<rparr>)
   = send_message
     (run V1 [CreateSession 0 ''B'' Constructed,
              Ready ''B'' 0 \<lparr>wid_user = Some ''4915'', status = None\<rparr>] init_state)
     ''B'' ''1555@c.us'' ''hi'' (Sent \<lparr>msg_id = ''m1'', msg_body = ''hi'', msg_from = ''4915@c.us'', msg_timestamp = 7\<rparr>)
   \<and> send_message
     (run V1 [CreateSession 0 ''B'' Constructed,
              Ready ''B'' 0 \<lparr>wid_user = Some ''4915'', status = None\<rparr>] init_state)
     ''B'' ''1555@c.us'' ''hi'' (Sent \<lparr>msg_id = ''m1'', msg_body = ''hi'', msg_from = ''4915@c.us'', msg_timestamp = 7\<rparr>)
   = [EngineSend 0 ''1555@c.us'' ''hi'', Respond 200 (SendOk ''m1'')]"
proof -
  have ne: "''1555'' \<noteq> []" by simp
  have ev: "send_message
     (run V1 [CreateSession 0 ''B'' Constructed,
              Ready ''B'' 0 \<lparr>wid_user = Some ''4915'', status = None\<rparr>] init_state)
     ''B'' ''1555@c.us'' ''hi'' (Sent \<lparr>msg_id = ''m1'', msg_body = ''hi'', msg_from = ''4915@c.us'', msg_timestamp = 7\<rparr>)
   = [EngineSend 0 ''1555@c.us'' ''hi'', Respond 200 (SendOk ''m1'')]"
    by (simp add: handler_defs send_message_def formattedNumber_def)
  from send_message_normalisation_transparent [OF ne no_suffix_in_1555] ev
  show ?thesis by simp
qed

subsection \<open>Explicit teardown\<close>

text \<open>
  Claim C7. \<^verbatim>\<open>DELETE /api/session/:clientId\<close> for an identifier that is not in the
  registry answers 404 with \<^verbatim>\<open>{success: false, error: 'Session not found'}\<close>, does
  nothing else, and leaves the whole state as it was.
\<close>

theorem delete_session_absent:
  assumes "map_get (clients st) clientId = None"
  shows "delete_session clientId st = (st, [Respond 404 (Failure ''Session not found'')])"
  using assms by (simp add: delete_session_def)

theorem delete_session_absent_witness:
  "map_get (clients (run V1 [CreateSession 0 ''A'' Constructed, CreateSession 0 ''B'' Constructed,
                             Ready ''B'' 1 \<lparr>wid_user = Some ''4915'', status = None\<rparr>]
                       init_state)) ''C'' = None
   \<and> delete_session ''C''
        (run V1 [CreateSession 0 ''A'' Constructed, CreateSession 0 ''B'' Constructed,
                 Ready ''B'' 1 \<lparr>wid_user = Some ''4915'', status = None\<rparr>] init_state)
      = (run V1 [CreateSession 0 ''A'' Constructed, CreateSession 0 ''B'' Constructed,
                 Ready ''B'' 1 \<lparr>wid_user = Some ''4915'', status = None\<rparr>] init_state,
         [Respond 404 (Failure ''Session not found'')])
   \<and> clients (fst (delete_session ''C''
        (run V1 [CreateSession 0 ''A'' Constructed, CreateSession 0 ''B'' Constructed,
                 Ready ''B'' 1 \<lparr>wid_user = Some ''4915'', status = None\<rparr>] init_state)))
      = [(''A'', 0), (''B'', 1)]
   \<and> info (fst (delete_session ''C''
        (run V1 [CreateSession 0 ''A'' Constructed, CreateSession 0 ''B'' Constructed,
                 Ready ''B'' 1 \<lparr>wid_user = Some ''4915'', status = None\<rparr>] init_state))) 1
      = Some \<lparr>wid_user = Some ''4915'', status = None\<rparr>
   \<and> get_sessions (fst (delete_session ''C''
        (run V1 [CreateSession 0 ''A'' Constructed, CreateSession 0 ''B'' Constructed,
                 Ready ''B'' 1 \<lparr>wid_user = Some ''4915'', status = None\<rparr>] init_state)))
      = [Respond 200 (Sessions [(''A'', ''disconnected''), (''B'', ''connected'')])]
   \<and> map_get (clients init_state) ''C'' = None
   \<and> delete_session ''C'' init_state = (init_state, [Respond 404 (Failure ''Session not found'')])"
proof -
  let ?st = "run V1 [CreateSession 0 ''A'' Constructed, CreateSession 0 ''B'' Constructed,
                     Ready ''B'' 1 \<lparr>wid_user = Some ''4915'', status = None\<rparr>] init_state"
  have h: "map_get (clients ?st) ''C'' = None" by (simp add: handler_defs)
  have c: "clients ?st = [(''A'', 0), (''B'', 1)]" by (simp add: handler_defs)
  have i: "info ?st 1 = Some \<lparr>wid_user = Some ''4915'', status = None\<rparr>"
    by (simp add: handler_defs)
  have g: "get_sessions ?st
      = [Respond 200 (Sessions [(''A'', ''disconnected''), (''B'', ''connected'')])]"
    by (simp add: handler_defs get_sessions_def)
  have h0: "map_get (clients init_state) ''C'' = None" by (simp add: init_state_def)
  have d: "delete_session ''C'' ?st = (?st, [Respond 404 (Failure ''Session not found'')])"
    by (rule delete_session_absent [OF h])
  have d0: "delete_session ''C'' init_state
      = (init_state, [Respond 404 (Failure ''Session not found'')])"
    by (rule delete_session_absent [OF h0])
  from h d c i g h0 d0 show ?thesis by (simp only: fst_conv simp_thms)
qed

subsection \<open>Creating a session that exists\<close>

text \<open>
  Claim C3, as stated, fails in variant 2: a creation request for a registered session
  that is ready emits nothing, neither to the requesting socket nor to any other. Its
  second branch, \<^verbatim>\<open>else if (clients.has(clientId))\<close>, only logs, and the third branch,
  which would emit \<^verbatim>\<open>ready_\<close>, cannot be reached.
\<close>

theorem create_session_existing_counterexample:
  "map_get (clients (run V2 [CreateSession 0 ''A'' Constructed,
                             Ready ''A'' 0 \<lparr>wid_user = Some ''4915'', status = None\<rparr>]
                       init_state)) ''A'' = Some 0
   \<and> info (run V2 [CreateSession 0 ''A'' Constructed,
                   Ready ''A'' 0 \<lparr>wid_user = Some ''4915'', status = None\<rparr>] init_state) 0
       = Some \<lparr>wid_user = Some ''4915'', status = None\<rparr>
   \<and> snd (step V2 (CreateSession 1 ''A'' Constructed)
             (run V2 [CreateSession 0 ''A'' Constructed,
                      Ready ''A'' 0 \<lparr>wid_user = Some ''4915'', status = None\<rparr>] init_state))
       = [Log ''Creating new session for client: A'',
          Log ''Session A already exists'',
          Log ''undefined'']"
  by (simp add: handler_defs)

text \<open>
  Claim C3, amended. A creation request for a session identifier that is registered
  leaves the state unchanged and logs that the session already exists, in both
  variants. In variant 1 it emits to the requesting socket the event named
  \<^verbatim>\<open>error_<id>_Session already exists\<close>, without a payload, and then, when the \<^verbatim>\<open>info\<close>
  of the registered client is set, the event \<^verbatim>\<open>ready_<id>\<close>; it emits nothing else.
\<close>

theorem create_session_existing:
  assumes "map_get (clients st) x = Some existing"
  shows "fst (create_session v s x c st) = st
    \<and> Log (''Session '' @ x @ '' already exists'') \<in> set (snd (create_session v s x c st))
    \<and> snd (create_session_v1 s x c st)
        = [Log (''Creating new session for client: '' @ x),
           Log (''Session '' @ x @ '' already exists''),
           SockEmit s (''error_'' @ x @ ''_Session already exists'') NoPayload]
          @ (if info st existing \<noteq> None then [SockEmit s (''ready_'' @ x) NoPayload] else [])"
proof -
  from assms have h: "map_has (clients st) x" by (simp add: map_has_get)
  from create_session_present [OF h, of v s c]
  have a: "fst (create_session v s x c st) = st
    \<and> Log (''Session '' @ x @ '' already exists'') \<in> set (snd (create_session v s x c st))" .
  from assms h have b: "snd (create_session_v1 s x c st)
        = [Log (''Creating new session for client: '' @ x),
           Log (''Session '' @ x @ '' already exists''),
           SockEmit s (''error_'' @ x @ ''_Session already exists'') NoPayload]
          @ (if info st existing \<noteq> None then [SockEmit s (''ready_'' @ x) NoPayload] else [])"
    by (simp add: create_session_v1_def)
  from a b show ?thesis by (simp only: simp_thms)
qed

theorem create_session_existing_witness:
  "map_get (clients (run V1 [CreateSession 0 ''A'' Constructed,
                             Ready ''A'' 0 \<lparr>wid_user = Some ''4915'', status = None\<rparr>]
                       init_state)) ''A'' = Some 0
   \<and> step V1 (CreateSession 1 ''A'' Constructed)
        (run V1 [CreateSession 0 ''A'' Constructed,
                 Ready ''A'' 0 \<lparr>wid_user = Some ''4915'', status = None\<rparr>] init_state)
      = (run V1 [CreateSession 0 ''A'' Constructed,
                 Ready ''A'' 0 \<lparr>wid_user = Some ''4915'', status = None\<rparr>] init_state,
         [Log ''Creating new session for client: A'',
          Log ''Session A already exists'',
          SockEmit 1 ''error_A_Session already exists'' NoPayload,
          SockEmit 1 ''ready_A'' NoPayload])"
proof -
  let ?st = "run V1 [CreateSession 0 ''A'' Constructed,
                     Ready ''A'' 0 \<lparr>wid_user = Some ''4915'', status = None\<rparr>] init_state"
  have h: "map_get (clients ?st) ''A'' = Some 0" by (simp add: handler_defs)
  have i: "info ?st 0 \<noteq> None" by (simp add: handler_defs)
  have e: "step V1 (CreateSession 1 ''A'' Constructed) ?st
           = (fst (create_session V1 1 ''A'' Constructed ?st),
              snd (create_session_v1 1 ''A'' Constructed ?st))" by simp
  from create_session_existing [OF h, of V1 1 Constructed] i
  have "fst (create_session V1 1 ''A'' Constructed ?st) = ?st"
    and "snd (create_session_v1 1 ''A'' Constructed ?st)
        = [Log ''Creating new session for client: A'',
           Log ''Session A already exists'',
           SockEmit 1 ''error_A_Session already exists'' NoPayload,
           SockEmit 1 ''ready_A'' NoPayload]"
    by simp_all
  with h e show ?thesis by (simp only: simp_thms)
qed

subsection \<open>Disconnects\<close>

text \<open>
  Claim C2, as stated, fails in variant 2, whose callback deletes the entry without
  looking at the reason: a registered session that is disconnected with the reason
  \<^verbatim>\<open>NAVIGATION\<close> is gone from the registry.
\<close>

theorem on_disconnected_other_reason_counterexample:
  "map_get (clients (run V2 [CreateSession 0 ''A'' Constructed] init_state)) ''A'' = Some 0
   \<and> ''NAVIGATION'' \<noteq> ''LOGOUT'' \<and> ''NAVIGATION'' \<noteq> ''UNPAIRED''
   \<and> map_get (clients (fst (step V2 (Disconnected ''A'' 0 ''NAVIGATION'')
        (run V2 [CreateSession 0 ''A'' Constructed] init_state)))) ''A'' = None"
  by (simp add: handler_defs)

text \<open>
  Claim C2, amended. In variant 1 a disconnect with the reason \<^verbatim>\<open>LOGOUT\<close> or
  \<^verbatim>\<open>UNPAIRED\<close> removes the session from the registry and broadcasts the reason; with
  any other reason the state stays as it is and the callback does nothing but log and
  broadcast the reason. In variant 2 every disconnect, whatever its reason, removes
  the session and broadcasts the reason. In both variants the entries of the other
  session identifiers are untouched.
\<close>

theorem on_disconnected_removal:
  "(reason = ''LOGOUT'' \<or> reason = ''UNPAIRED'' \<longrightarrow>
      map_get (clients (fst (on_disconnected_v1 clientId client reason st))) clientId = None
      \<and> snd (on_disconnected_v1 clientId client reason st)
          = [Log (''['' @ clientId @ ''] Client was disconnected: '' @ reason),
             Log (''['' @ clientId @ ''] Session removed due to unlinking''),
             IoEmit (''disconnected_'' @ clientId) (Text reason)])
   \<and> (reason \<noteq> ''LOGOUT'' \<and> reason \<noteq> ''UNPAIRED'' \<longrightarrow>
      on_disconnected_v1 clientId client reason st
        = (st, [Log (''['' @ clientId @ ''] Client was disconnected: '' @ reason),
                IoEmit (''disconnected_'' @ clientId) (Text reason)]))
   \<and> map_get (clients (fst (on_disconnected_v2 clientId client reason st))) clientId = None
   \<and> snd (on_disconnected_v2 clientId client reason st)
        = [Log (''['' @ clientId @ ''] Client was disconnected: '' @ reason),
           LogClients (clients (fst (on_disconnected_v2 clientId client reason st))),
           IoEmit (''disconnected_'' @ clientId) (Text reason)]
   \<and> (k \<noteq> clientId \<longrightarrow>
        map_get (clients (fst (on_disconnected v clientId client reason st))) k
          = map_get (clients st) k)"
proof -
  have o: "k \<noteq> clientId \<longrightarrow>
        map_get (clients (fst (on_disconnected v clientId client reason st))) k
          = map_get (clients st) k"
    by (cases v) (simp_all add: on_disconnected_v1_def on_disconnected_v2_def map_get_delete)
  have v1: "reason = ''LOGOUT'' \<or> reason = ''UNPAIRED'' \<longrightarrow>
      map_get (clients (fst (on_disconnected_v1 clientId client reason st))) clientId = None
      \<and> snd (on_disconnected_v1 clientId client reason st)
          = [Log (''['' @ clientId @ ''] Client was disconnected: '' @ reason),
             Log (''['' @ clientId @ ''] Session removed due to unlinking''),
             IoEmit (''disconnected_'' @ clientId) (Text reason)]"
    by (simp add: on_disconnected_v1_def map_get_delete)
  have v1': "reason \<noteq> ''LOGOUT'' \<and> reason \<noteq> ''UNPAIRED'' \<longrightarrow>
      on_disconnected_v1 clientId client reason st
        = (st, [Log (''['' @ clientId @ ''] Client was disconnected: '' @ reason),
                IoEmit (''disconnected_'' @ clientId) (Text reason)])"
    by (simp add: on_disconnected_v1_def)
  have v2: "map_get (clients (fst (on_disconnected_v2 clientId client reason st))) clientId = None
   \<and> snd (on_disconnected_v2 clientId client reason st)
        = [Log (''['' @ clientId @ ''] Client was disconnected: '' @ reason),
           LogClients (clients (fst (on_disconnected_v2 clientId client reason st))),
           IoEmit (''disconnected_'' @ clientId) (Text reason)]"
    by (simp add: on_disconnected_v2_def map_get_delete)
  from v1 v1' v2 o show ?thesis by (simp only: simp_thms)
qed

theorem on_disconnected_removal_witness:
  "map_get (clients (run V1 [CreateSession 0 ''A'' Constructed] init_state)) ''A'' = Some 0
   \<and> map_get (clients (fst (on_disconnected_v1 ''A'' 0 ''LOGOUT''
        (run V1 [CreateSession 0 ''A'' Constructed] init_state)))) ''A'' = None
   \<and> map_get (clients (fst (on_disconnected_v1 ''A'' 0 ''UNPAIRED''
        (run V1 [CreateSession 0 ''A'' Constructed] init_state)))) ''A'' = None
   \<and> map_get (clients (fst (on_disconnected_v1 ''A'' 0 ''NAVIGATION''
        (run V1 [CreateSession 0 ''A'' Constructed] init_state)))) ''A'' = Some 0
   \<and> map_get (clients (fst (on_disconnected V1 ''A'' 0 ''LOGOUT''
        (run V1 [CreateSession 0 ''A'' Constructed, CreateSession 0 ''B'' Constructed]
           init_state)))) ''B'' = Some 1"
proof -
  let ?st = "run V1 [CreateSession 0 ''A'' Constructed] init_state"
  let ?st2 = "run V1 [CreateSession 0 ''A'' Constructed, CreateSession 0 ''B'' Constructed]
           init_state"
  have h: "map_get (clients ?st) ''A'' = Some 0" by (simp add: handler_defs)
  have h2: "map_get (clients ?st2) ''B'' = Some 1" by (simp add: handler_defs)
  have a: "map_get (clients (fst (on_disconnected_v1 ''A'' 0 ''LOGOUT'' ?st))) ''A'' = None"
    using on_disconnected_removal [of "''LOGOUT''" "''A''" 0 ?st "''B''" V1] by simp
  have b: "map_get (clients (fst (on_disconnected_v1 ''A'' 0 ''UNPAIRED'' ?st))) ''A'' = None"
    using on_disconnected_removal [of "''UNPAIRED''" "''A''" 0 ?st "''B''" V1] by simp
  have c: "on_disconnected_v1 ''A'' 0 ''NAVIGATION'' ?st
        = (?st, [Log (''['' @ ''A'' @ ''] Client was disconnected: '' @ ''NAVIGATION''),
                IoEmit (''disconnected_'' @ ''A'') (Text ''NAVIGATION'')])"
    using on_disconnected_removal [of "''NAVIGATION''" "''A''" 0 ?st "''B''" V1] by simp
  have d: "map_get (clients (fst (on_disconnected V1 ''A'' 0 ''LOGOUT'' ?st2))) ''B''
           = map_get (clients ?st2) ''B''"
    using on_disconnected_removal [of "''LOGOUT''" "''A''" 0 ?st2 "''B''" V1] by simp
  from h h2 a b c d show ?thesis by simp
qed

subsection \<open>Teardown failures\<close>

text \<open>
  The engine callbacks of variant 1 that remove a session (authentication failure,
  exhausted QR retries, rejected initialisation) delete the entry and chain a \<^verbatim>\<open>catch\<close>
  to \<^verbatim>\<open>client.destroy()\<close>, so a failed teardown is logged.
\<close>

lemma teardown_caught_v1:
  "map_get (clients (fst (on_auth_failure_v1 clientId client msg st))) clientId = None
   \<and> Destroy client (Caught (''['' @ clientId @ ''] Error destroying client:''))
       \<in> set (snd (on_auth_failure_v1 clientId client msg st))
   \<and> map_get (clients (fst (on_qr_max_retries_v1 clientId client st))) clientId = None
   \<and> Destroy client (Caught (''['' @ clientId @ ''] Error destroying client:''))
       \<in> set (snd (on_qr_max_retries_v1 clientId client st))
   \<and> map_get (clients (fst (on_initialize_rejected_v1 socket clientId client err st))) clientId
       = None
   \<and> Destroy client
        (Caught (''['' @ clientId @ ''] Error destroying client after init failure:''))
       \<in> set (snd (on_initialize_rejected_v1 socket clientId client err st))
   \<and> destroy_settled (Caught label) (Rejected e) = [Log (label @ '' '' @ e)]"
  by (simp add: on_auth_failure_v1_def on_qr_max_retries_v1_def on_initialize_rejected_v1_def
        map_get_delete)

text \<open>
  Claim C5 at the explicit teardown request. \<^verbatim>\<open>DELETE /api/session/A\<close> for a registered
  session calls \<^verbatim>\<open>client.destroy()\<close> and drops the promise, removes the entry and
  answers success, in both variants. The removal and the answer do not depend on the
  teardown, but no \<^verbatim>\<open>catch\<close> is chained: when the teardown fails, nothing is logged and
  the rejection is an unhandled rejection of the process.
\<close>

theorem delete_session_teardown_dropped:
  "map_get (clients (run V1 [CreateSession 0 ''A'' Constructed] init_state)) ''A'' = Some 0
   \<and> snd (step V1 (DeleteSession ''A'') (run V1 [CreateSession 0 ''A'' Constructed] init_state))
       = [Destroy 0 Dropped, Respond 200 Success]
   \<and> clients (fst (step V1 (DeleteSession ''A'')
        (run V1 [CreateSession 0 ''A'' Constructed] init_state))) = []
   \<and> destroy_settled Dropped (Rejected ''Target closed'') = [UnhandledRejection ''Target closed'']
   \<and> snd (step V2 (DeleteSession ''A'') (run V2 [CreateSession 0 ''A'' Constructed] init_state))
       = [Destroy 0 Dropped, Respond 200 Success]"
  by (simp add: handler_defs)

text \<open>
  Claim C6, as stated, fails in variant 2: when \<^verbatim>\<open>initialize()\<close> rejects, the callback
  logs and emits the error, the state is unchanged (the session stays registered) and
  \<^verbatim>\<open>client.destroy()\<close> is not called.
\<close>

theorem on_initialize_rejected_counterexample:
  "map_get (clients (run V2 [CreateSession 0 ''A'' Constructed] init_state)) ''A'' = Some 0
   \<and> step V2 (InitializeRejected 0 ''A'' 0 ''timeout'')
        (run V2 [CreateSession 0 ''A'' Constructed] init_state)
      = (run V2 [CreateSession 0 ''A'' Constructed] init_state,
         [Log ''[A] Error during initialization: timeout'',
          SockEmit 0 ''error_A'' (Text ''Failed to initialize WhatsApp client'')])"
  by (simp add: handler_defs)

text \<open>
  Claim C6, amended. In variant 1, when \<^verbatim>\<open>initialize()\<close> rejects, the callback logs
  the error, emits \<^verbatim>\<open>error_<id>\<close> with the text "Failed to initialize WhatsApp client"
  to the socket that asked for the session, removes the entry of the identifier from
  the registry, and calls \<^verbatim>\<open>client.destroy()\<close> with a logging \<^verbatim>\<open>catch\<close>. In variant 2 it
  logs the error and emits the same event to that socket, and does nothing else.
\<close>

theorem on_initialize_rejected_cleanup:
  "map_get (clients (fst (on_initialize_rejected_v1 socket clientId client err st))) clientId = None
   \<and> snd (on_initialize_rejected_v1 socket clientId client err st)
       = [Log (''['' @ clientId @ ''] Error during initialization: '' @ err),
          SockEmit socket (''error_'' @ clientId) (Text ''Failed to initialize WhatsApp client''),
          Destroy client
            (Caught (''['' @ clientId @ ''] Error destroying client after init failure:''))]
   \<and> on_initialize_rejected_v2 socket clientId client err st
       = (st, [Log (''['' @ clientId @ ''] Error during initialization: '' @ err),
               SockEmit socket (''error_'' @ clientId)
                 (Text ''Failed to initialize WhatsApp client'')])"
  by (simp add: on_initialize_rejected_v1_def on_initialize_rejected_v2_def map_get_delete)

theorem on_initialize_rejected_cleanup_witness:
  "map_get (clients (run V1 [CreateSession 3 ''A'' Constructed] init_state)) ''A'' = Some 0
   \<and> map_get (clients (fst (on_initialize_rejected_v1 3 ''A'' 0 ''timeout''
        (run V1 [CreateSession 3 ''A'' Constructed] init_state)))) ''A'' = None
   \<and> snd (on_initialize_rejected_v1 3 ''A'' 0 ''timeout''
        (run V1 [CreateSession 3 ''A'' Constructed] init_state))
      = [Log ''[A] Error during initialization: timeout'',
         SockEmit 3 ''error_A'' (Text ''Failed to initialize WhatsApp client''),
         Destroy 0 (Caught ''[A] Error destroying client after init failure:'')]"
proof -
  let ?st = "run V1 [CreateSession 3 ''A'' Constructed] init_state"
  have h: "map_get (clients ?st) ''A'' = Some 0" by (simp add: handler_defs)
  from on_initialize_rejected_cleanup [of 3 "''A''" 0 "''timeout''" ?st] h
  show ?thesis by simp
qed

subsection \<open>Listing the sessions\<close>

lemma map_get_map_of: "map_get m k = map_of m k"
  by (induction m) auto

lemma map_get_mem: "distinct (map fst m) \<Longrightarrow> (map_get m k = Some v) = ((k, v) \<in> set m)"
  by (simp add: map_get_map_of)

text \<open>
  Claim C8. In every reachable state \<^verbatim>\<open>GET /api/sessions\<close> answers with one entry for
  each registered session identifier, in the order of the registry and without
  repetition; the entry of an identifier carries "connected" when the \<^verbatim>\<open>info\<close> of its
  client is set and "disconnected" otherwise. After a creation request for "B" and
  the \<^verbatim>\<open>ready\<close> event of its client, the answer is the one entry "B", "connected".
\<close>

theorem get_sessions_one_entry_per_session:
  "(reachable v st \<longrightarrow>
      (\<exists>xs. get_sessions st = [Respond 200 (Sessions xs)]
         \<and> map fst xs = map fst (clients st)
         \<and> distinct (map fst xs)
         \<and> (\<forall>clientId s. ((clientId, s) \<in> set xs) =
              (\<exists>client. map_get (clients st) clientId = Some client
                 \<and> s = (if info st client \<noteq> None then ''connected'' else ''disconnected'')))))
   \<and> get_sessions (run v [CreateSession socket ''B'' Constructed, Ready ''B'' 0 i] init_state)
       = [Respond 200 (Sessions [(''B'', ''connected'')])]"
proof -
  let ?f = "\<lambda>(clientId, client).
        (clientId, if info st client \<noteq> None then ''connected'' else ''disconnected'')"
  let ?xs = "map ?f (clients st)"
  have g: "get_sessions st = [Respond 200 (Sessions ?xs)]" by (simp add: get_sessions_def)
  have k: "map fst ?xs = map fst (clients st)" by (induction "clients st") auto
  have sc: "get_sessions (run v [CreateSession socket ''B'' Constructed, Ready ''B'' 0 i] init_state)
       = [Respond 200 (Sessions [(''B'', ''connected'')])]"
    by (cases v) (simp_all add: handler_defs get_sessions_def)
  have "reachable v st \<longrightarrow>
      (\<exists>xs. get_sessions st = [Respond 200 (Sessions xs)]
         \<and> map fst xs = map fst (clients st)
         \<and> distinct (map fst xs)
         \<and> (\<forall>clientId s. ((clientId, s) \<in> set xs) =
              (\<exists>client. map_get (clients st) clientId = Some client
                 \<and> s = (if info st client \<noteq> None then ''connected'' else ''disconnected''))))"
  proof
    assume "reachable v st"
    then have d: "distinct (map fst (clients st))" by (rule reachable_distinct)
    then have dx: "distinct (map fst ?xs)" by (simp only: k)
    have m: "\<forall>clientId s. ((clientId, s) \<in> set ?xs) =
              (\<exists>client. map_get (clients st) clientId = Some client
                 \<and> s = (if info st client \<noteq> None then ''connected'' else ''disconnected''))"
      using d by (force simp: map_get_mem)
    from g k dx m show "\<exists>xs. get_sessions st = [Respond 200 (Sessions xs)]
         \<and> map fst xs = map fst (clients st)
         \<and> distinct (map fst xs)
         \<and> (\<forall>clientId s. ((clientId, s) \<in> set xs) =
              (\<exists>client. map_get (clients st) clientId = Some client
                 \<and> s = (if info st client \<noteq> None then ''connected'' else ''disconnected'')))"
      by blast
  qed
  with sc show ?thesis by (simp only: simp_thms)
qed

theorem get_sessions_one_entry_per_session_witness:
  "reachable V1 (run V1 [CreateSession 0 ''A'' Constructed, CreateSession 0 ''B'' Constructed,
                         Ready ''B'' 1 \<lparr>wid_user = Some ''4915'', status = None\<rparr>] init_state)
   \<and> get_sessions (run V1 [CreateSession 0 ''A'' Constructed, CreateSession 0 ''B'' Constructed,
                           Ready ''B'' 1 \<lparr>wid_user = Some ''4915'', status = None\<rparr>] init_state)
       = [Respond 200 (Sessions [(''A'', ''disconnected''), (''B'', ''connected'')])]
   \<and> get_sessions (run V1 [CreateSession 0 ''B'' Constructed,
                           Ready ''B'' 0 \<lparr>wid_user = Some ''4915'', status = None\<rparr>] init_state)
       = [Respond 200 (Sessions [(''B'', ''connected'')])]"
proof -
  let ?st = "run V1 [CreateSession 0 ''A'' Constructed, CreateSession 0 ''B'' Constructed,
                     Ready ''B'' 1 \<lparr>wid_user = Some ''4915'', status = None\<rparr>] init_state"
  have r: "reachable V1 ?st" by (rule reachable_run [OF reachable_init])
  have e: "get_sessions ?st
       = [Respond 200 (Sessions [(''A'', ''disconnected''), (''B'', ''connected'')])]"
    by (simp add: handler_defs get_sessions_def)
  from get_sessions_one_entry_per_session
         [of V1 ?st 0 "\<lparr>wid_user = Some ''4915'', status = None\<rparr>"] r e
  show ?thesis by (simp only: simp_thms)
qed

end
